theory Spec2Isabelle
  imports Complex_Main "HOL-Library.Sublist" "HOL-Library.Char_ord" "HOL-Library.List_Lexorder"
    "HOL-Library.Multiset"
begin

section \<open>Python strings\<close>

text \<open>
  A Python \<open>str\<close> is modelled as a \<open>string\<close> holding its UTF-8 bytes. The string methods
  below act on the ASCII range as Python's do; bytes outside it are left alone
  (\<open>upper\<close>, \<open>lower\<close>) and are never whitespace.
\<close>

definition is_space :: "char \<Rightarrow> bool" where
  "is_space c = (let n = (of_char c :: nat) in (9 \<le> n \<and> n \<le> 13) \<or> (28 \<le> n \<and> n \<le> 32))"

definition upper_char :: "char \<Rightarrow> char" where
  "upper_char c = (let n = (of_char c :: nat) in if 97 \<le> n \<and> n \<le> 122 then char_of (n - 32) else c)"

definition lower_char :: "char \<Rightarrow> char" where
  "lower_char c = (let n = (of_char c :: nat) in if 65 \<le> n \<and> n \<le> 90 then char_of (n + 32) else c)"

definition upper :: "string \<Rightarrow> string" where
  "upper s = map upper_char s"

definition lower :: "string \<Rightarrow> string" where
  "lower s = map lower_char s"

definition strip :: "string \<Rightarrow> string" where
  "strip s = rev (dropWhile is_space (rev (dropWhile is_space s)))"

text \<open>\<open>s.replace(old, new)\<close> for a non-empty \<open>old\<close>: leftmost non-overlapping occurrences.\<close>

function replace :: "string \<Rightarrow> string \<Rightarrow> string \<Rightarrow> string" where
  "replace old new [] = []"
| "replace old new (c # cs) =
     (if old \<noteq> [] \<and> prefix old (c # cs)
      then new @ replace old new (drop (length old - 1) cs)
      else c # replace old new cs)"
  by pat_completeness auto
termination
  by (relation "measure (\<lambda>(old, new, s). length s)") auto

text \<open>\<open>sub in s\<close>.\<close>

fun contains :: "string \<Rightarrow> string \<Rightarrow> bool" where
  "contains sub [] = (sub = [])"
| "contains sub (c # cs) = (prefix sub (c # cs) \<or> contains sub cs)"

text \<open>\<open>s.split(sep)\<close> for a one-character separator: always at least one field.\<close>

fun split_on :: "char \<Rightarrow> string \<Rightarrow> string list" where
  "split_on sep [] = [[]]"
| "split_on sep (c # cs) =
     (if c = sep then [] # split_on sep cs
      else (case split_on sep cs of w # ws \<Rightarrow> (c # w) # ws | [] \<Rightarrow> [[c]]))"

text \<open>\<open>s.split()\<close>: the maximal runs of non-whitespace.\<close>

fun split_ws_acc :: "string \<Rightarrow> string \<Rightarrow> string list" where
  "split_ws_acc w [] = (if w = [] then [] else [rev w])"
| "split_ws_acc w (c # cs) =
     (if is_space c then (if w = [] then split_ws_acc [] cs else rev w # split_ws_acc [] cs)
      else split_ws_acc (c # w) cs)"

definition split_ws :: "string \<Rightarrow> string list" where
  "split_ws s = split_ws_acc [] s"

text \<open>\<open>sep.join(ws)\<close>.\<close>

fun join :: "string \<Rightarrow> string list \<Rightarrow> string" where
  "join sep [] = []"
| "join sep [w] = w"
| "join sep (w # v # ws) = w @ sep @ join sep (v # ws)"

section \<open>Normalization helpers (engine.py)\<close>

text \<open>\<open>ALLOWED_MOUNTS\<close> of schema.py.\<close>

definition ALLOWED_MOUNTS :: "string set" where
  "ALLOWED_MOUNTS = {''9x9'', ''12x12'', ''16x16'', ''19x19'', ''20x20'', ''25.5x25.5'', ''30.5x30.5''}"

text \<open>The multiplication sign U+00D7 in UTF-8.\<close>

definition times_sign :: string where
  "times_sign = [CHR 0xC3, CHR 0x97]"

text \<open>
  The argument of \<open>_canon_mount_list\<close>: \<open>None\<close>, a list of tokens, or anything else, which
  is read through \<open>str\<close>.
\<close>

datatype mount_val = MNone | MList "string list" | MStr string

text \<open>The loop body of \<open>_canon_mount_list\<close>, \<open>out\<close> being the list built so far.\<close>

fun mount_loop :: "string list \<Rightarrow> string list \<Rightarrow> string list" where
  "mount_loop out [] = out"
| "mount_loop out (t # toks) =
     (let t1 = lower (strip t) in
      if t1 = [] then mount_loop out toks
      else
        let t2 = (if t1 = ''30x30'' then ''30.5x30.5'' else t1);
            t3 = (if t2 = ''25x25'' then ''25.5x25.5'' else t2)
        in if t3 \<in> ALLOWED_MOUNTS \<and> t3 \<notin> set out then mount_loop (out @ [t3]) toks
           else mount_loop out toks)"

definition canon_mount_list :: "mount_val \<Rightarrow> string list" where
  "canon_mount_list val =
     (case val of
        MNone \<Rightarrow> []
      | MList xs \<Rightarrow> mount_loop [] xs
      | MStr s \<Rightarrow> mount_loop [] (split_on CHR '','' (replace '' '' [] (replace times_sign ''x'' s))))"

text \<open>\<open>_canon_connector\<close>: RF connectors; \<open>None\<close> is Python's \<open>None\<close>.\<close>

definition canon_connector :: "string option \<Rightarrow> string option" where
  "canon_connector v =
     (case v of
        None \<Rightarrow> None
      | Some x \<Rightarrow>
          let s0 = replace ''.'' '' '' (replace ''-'' '' '' (replace ''_'' '' '' (upper (strip x))));
              s = join '' '' (split_ws s0)
          in if contains ''RP SMA'' s then Some ''RP-SMA''
             else if contains ''SMA'' s then Some ''SMA''
             else if contains ''MMCX'' s then Some ''MMCX''
             else if contains ''MCX'' s \<and> \<not> contains ''MMCX'' s then Some ''MCX''
             else if contains ''MHF4'' s \<or> contains ''IPEX 4'' s then Some ''IPEX MHF4''
             else if contains ''MHF1'' s \<or> contains ''IPEX 1'' s then Some ''IPEX MHF1''
             else if contains ''U FL'' s \<or> contains ''UFL'' s \<or> contains ''IPEX'' s then Some ''U.FL''
             else None)"

text \<open>\<open>_canon_power_conn\<close>: \<open>None\<close> stands for both \<open>None\<close> and a NaN cell.\<close>

definition canon_power_conn :: "string option \<Rightarrow> string option" where
  "canon_power_conn v =
     (case v of
        None \<Rightarrow> None
      | Some x \<Rightarrow>
          let t = replace ''-'' [] (replace '' '' [] (upper (strip x)))
          in if t \<in> {''XT30'', ''AMASSXT30'', ''XT30U''} then Some ''XT30''
             else if t \<in> {''XT60'', ''AMASSXT60'', ''XT60H''} then Some ''XT60''
             else if t \<in> {''XT90'', ''XT90S''} then Some ''XT90''
             else if t \<in> {''EC3''} then Some ''EC3''
             else if t \<in> {''EC5''} then Some ''EC5''
             else if t \<in> {''JSTRCY'', ''JST''} then Some ''JST-RCY''
             else Some t)"


text \<open>
  Numbers. A float cell is a \<open>real option\<close>: \<open>None\<close> is NaN, pandas' missing value, and
  \<open>Some x\<close> a finite float, read as the real number it denotes. Arithmetic and comparisons
  are those of the reals; rounding and the infinities are outside the model.
\<close>

text \<open>\<open>_motor_hub_from_shaft\<close>, on a cell of the float column \<open>shaft_mm\<close>.\<close>

definition motor_hub_from_shaft :: "real option \<Rightarrow> string option" where
  "motor_hub_from_shaft shaft =
     (case shaft of
        None \<Rightarrow> None
      | Some x \<Rightarrow> if x \<ge> 48 / 10 then Some ''M5'' else if x \<le> 21 / 10 then Some ''T-MOUNT'' else None)"

text \<open>\<open>_s_overlap\<close>: \<open>None\<close> when a bound is missing.\<close>

definition s_overlap :: "real option \<Rightarrow> real option \<Rightarrow> real option \<Rightarrow> real option \<Rightarrow> bool option" where
  "s_overlap a_min a_max b_min b_max =
     (case (a_min, a_max, b_min, b_max) of
        (Some a1, Some a2, Some b1, Some b2) \<Rightarrow> Some (max a1 b1 \<le> min a2 b2)
      | _ \<Rightarrow> None)"

text \<open>
  \<open>float(s)\<close> of a string, a builtin of Python: surrounding whitespace, an optional
  sign, then \<open>inf\<close>, \<open>infinity\<close> or \<open>nan\<close> in any case, or a decimal number with an
  optional exponent, where single underscores may separate digits. Anything else raises
  \<open>ValueError\<close>. The result is \<open>Inr None\<close> for the three non-finite values.
\<close>

datatype error = ValueError

definition is_cspace :: "char \<Rightarrow> bool" where
  "is_cspace c = (let n = (of_char c :: nat) in (9 \<le> n \<and> n \<le> 13) \<or> n = 32)"

definition is_digit :: "char \<Rightarrow> bool" where
  "is_digit c = (let n = (of_char c :: nat) in 48 \<le> n \<and> n \<le> 57)"

text \<open>A digit part: digits, with single underscores between two digits only.\<close>

fun digitpart :: "string \<Rightarrow> bool" where
  "digitpart [] = False"
| "digitpart [c] = is_digit c"
| "digitpart (c # d # cs) =
     (is_digit c \<and> (if d = CHR ''_'' then digitpart cs else digitpart (d # cs)))"

definition digits_val :: "string \<Rightarrow> nat" where
  "digits_val ds = foldl (\<lambda>acc c. 10 * acc + (of_char c - 48)) 0 (filter is_digit ds)"

definition split_sign :: "string \<Rightarrow> bool \<times> string" where
  "split_sign s =
     (case s of
        c # cs \<Rightarrow> if c = CHR ''-'' then (True, cs) else if c = CHR ''+'' then (False, cs) else (False, s)
      | [] \<Rightarrow> (False, s))"

definition is_exp_char :: "char \<Rightarrow> bool" where
  "is_exp_char c = (c = CHR ''e'' \<or> c = CHR ''E'')"

definition py_float :: "string \<Rightarrow> error + real option" where
  "py_float s0 =
     (let s = rev (dropWhile is_cspace (rev (dropWhile is_cspace s0)));
          (neg, body) = split_sign s;
          mant = takeWhile (\<lambda>c. \<not> is_exp_char c) body;
          rest = dropWhile (\<lambda>c. \<not> is_exp_char c) body;
          ip = takeWhile (\<lambda>c. c \<noteq> CHR ''.'') mant;
          fp0 = dropWhile (\<lambda>c. c \<noteq> CHR ''.'') mant;
          fp = drop 1 fp0;
          mant_ok = (if fp0 = [] then digitpart ip
                     else (ip = [] \<or> digitpart ip) \<and> (fp = [] \<or> digitpart fp) \<and> (ip \<noteq> [] \<or> fp \<noteq> []));
          (eneg, ed) = split_sign (drop 1 rest);
          exp_ok = (rest = [] \<or> digitpart ed)
      in if lower body \<in> {''inf'', ''infinity'', ''nan''} then Inr None
         else if mant_ok \<and> exp_ok then
           let m = real (digits_val (ip @ fp)) / 10 ^ length (filter is_digit fp);
               e = digits_val ed;
               v = (if eneg then m / 10 ^ e else m * 10 ^ e)
           in Inr (Some (if neg then - v else v))
         else Inl ValueError)"

text \<open>
  \<open>format(x, '.1f')\<close>, as used in the headroom reason: \<open>x\<close> rounded to one decimal, ties
  to even.
\<close>

function digits_of :: "nat \<Rightarrow> string" where
  "digits_of n = (if n < 10 then [char_of (48 + n)] else digits_of (n div 10) @ [char_of (48 + n mod 10)])"
  by pat_completeness auto
termination
  by (relation "measure id") auto

definition round_half_even :: "real \<Rightarrow> nat" where
  "round_half_even a =
     (let f = nat \<lfloor>a\<rfloor>; d = a - real f
      in if d < 1 / 2 then f else if d > 1 / 2 then f + 1 else if even f then f else f + 1)"

definition fmt_1f :: "real \<Rightarrow> string" where
  "fmt_1f x =
     (let n = round_half_even (\<bar>x\<bar> * 10)
      in (if x < 0 then ''-'' else []) @ digits_of (n div 10) @ ''.'' @ digits_of (n mod 10))"

section \<open>The parts table\<close>

text \<open>
  A cell of a column that \<open>load_parts\<close> does not coerce: missing, a number or a string.
\<close>

datatype cell = Null | Num real | Str string

text \<open>
  A row of the table that \<open>load_parts\<close> returns, with the columns that \<open>build_compat\<close>
  reads (\<open>ptype\<close> is the column \<open>type\<close>). \<open>sku\<close>, \<open>type\<close> and \<open>name\<close> are strings
  (\<open>astype(str)\<close>); the columns of
  \<open>numeric_cols\<close> are floats (\<open>_to_float\<close>); the text columns are a string or missing.
  \<open>rx_band_ghz\<close> is not in \<open>numeric_cols\<close> and keeps whatever the source file held.
\<close>

record part =
  sku :: string
  ptype :: string
  name :: string
  frame_max_prop_in :: "real option"
  prop_diameter_in :: "real option"
  frame_fc_mount_pattern_eff :: "string option"
  frame_motor_mount_pattern_eff :: "string option"
  fc_mount_pattern_eff :: "string option"
  esc_mount_pattern_eff :: "string option"
  motor_mount_pattern_eff :: "string option"
  battery_connector_eff :: "string option"
  cell_count :: "real option"
  esc_batt_connector_eff :: "string option"
  esc_cells_min :: "real option"
  esc_cells_max :: "real option"
  esc_continuous_current_a :: "real option"
  max_current_a :: "real option"
  cells_min :: "real option"
  cells_max :: "real option"
  vtx_system :: "string option"
  camera_system :: "string option"
  vtx_ant_conn :: "string option"
  vtx_ant_conn_eff :: "string option"
  antenna_conn :: "string option"
  antenna_conn_eff :: "string option"
  antenna_band_ghz :: "real option"
  antenna_use :: "string option"
  fc_vbat_min_s :: "real option"
  fc_vbat_max_s :: "real option"
  vtx_input_s_min :: "real option"
  vtx_input_s_max :: "real option"
  fc_bec_5v_a :: "real option"
  fc_bec_9v_a :: "real option"
  fc_bec_10v_a :: "real option"
  fc_bec_12v_a :: "real option"
  vtx_5v_current_a :: "real option"
  vtx_9v_current_a :: "real option"
  vtx_10v_current_a :: "real option"
  vtx_12v_current_a :: "real option"
  camera_5v_current_a :: "real option"
  camera_input_v_min :: "real option"
  camera_input_v_max :: "real option"
  rx_ant_conn :: "string option"
  rx_band_ghz :: cell
  pigtail_connector_eff :: "string option"
  capacitor_voltage_v :: "real option"
  shaft_mm :: "real option"
  prop_hub_eff :: "string option"

text \<open>A part with every attribute missing.\<close>

definition blank :: "string \<Rightarrow> string \<Rightarrow> string \<Rightarrow> part" where
  "blank s t n = \<lparr> sku = s, ptype = t, name = n,
     frame_max_prop_in = None, prop_diameter_in = None, frame_fc_mount_pattern_eff = None,
     frame_motor_mount_pattern_eff = None, fc_mount_pattern_eff = None, esc_mount_pattern_eff = None,
     motor_mount_pattern_eff = None, battery_connector_eff = None, cell_count = None,
     esc_batt_connector_eff = None, esc_cells_min = None, esc_cells_max = None,
     esc_continuous_current_a = None, max_current_a = None, cells_min = None, cells_max = None,
     vtx_system = None, camera_system = None, vtx_ant_conn = None, vtx_ant_conn_eff = None,
     antenna_conn = None, antenna_conn_eff = None, antenna_band_ghz = None, antenna_use = None,
     fc_vbat_min_s = None, fc_vbat_max_s = None, vtx_input_s_min = None, vtx_input_s_max = None,
     fc_bec_5v_a = None, fc_bec_9v_a = None, fc_bec_10v_a = None, fc_bec_12v_a = None,
     vtx_5v_current_a = None, vtx_9v_current_a = None, vtx_10v_current_a = None,
     vtx_12v_current_a = None, camera_5v_current_a = None, camera_input_v_min = None,
     camera_input_v_max = None, rx_ant_conn = None, rx_band_ghz = Null,
     pigtail_connector_eff = None, capacitor_voltage_v = None, shaft_mm = None,
     prop_hub_eff = None \<rparr>"

text \<open>A result table: its columns in order, and its rows, each a list of cells in that order.\<close>

record table =
  columns :: "string list"
  rows :: "cell list list"

definition float_cell :: "real option \<Rightarrow> cell" where
  "float_cell x = (case x of None \<Rightarrow> Null | Some v \<Rightarrow> Num v)"

definition text_cell :: "string option \<Rightarrow> cell" where
  "text_cell x = (case x of None \<Rightarrow> Null | Some v \<Rightarrow> Str v)"

text \<open>Comparisons of float cells: false as soon as one side is NaN.\<close>

definition fle :: "real option \<Rightarrow> real option \<Rightarrow> bool" where
  "fle a b = (case (a, b) of (Some x, Some y) \<Rightarrow> x \<le> y | _ \<Rightarrow> False)"

definition fge :: "real option \<Rightarrow> real option \<Rightarrow> bool" where
  "fge a b = fle b a"

definition PASS :: string where
  "PASS = ''PASS''"
definition FAIL :: string where
  "FAIL = ''FAIL''"
definition WARN :: string where
  "WARN = ''WARN''"

text \<open>The signs \<open>\<le>\<close> (U+2264) and \<open>\<ge>\<close> (U+2265) of the reason texts, in UTF-8.\<close>

definition le_sign :: string where
  "le_sign = [CHR 0xE2, CHR 0x89, CHR 0xA4]"

definition ge_sign :: string where
  "ge_sign = [CHR 0xE2, CHR 0x89, CHR 0xA5]"



section \<open>Compat primitives\<close>

text \<open>
  \<open>_cartesian\<close>: the empty frame when a side is empty, else every pair, the left rows in
  order and under each the right rows in order.
\<close>

definition cartesian :: "'a list \<Rightarrow> 'b list \<Rightarrow> ('a \<times> 'b) list" where
  "cartesian a b = (if a = [] \<or> b = [] then [] else concat (map (\<lambda>x. map (\<lambda>y. (x, y)) b) a))"

text \<open>
  \<open>a.merge(b, how="inner")\<close> on key columns given by \<open>ka\<close> and \<open>kb\<close>: the pairs with
  equal keys, the left rows in order. pandas matches a missing key with a missing key, and so
  does equality here. The check that pandas makes on the dtypes of the two key columns before
  it merges is not part of the model.
\<close>

definition merge_on :: "('a \<Rightarrow> 'k) \<Rightarrow> ('b \<Rightarrow> 'k) \<Rightarrow> 'a list \<Rightarrow> 'b list \<Rightarrow> ('a \<times> 'b) list" where
  "merge_on ka kb a b = concat (map (\<lambda>x. map (\<lambda>y. (x, y)) (filter (\<lambda>y. ka x = kb y) b)) a)"

text \<open>\<open>df[df["type"] == t]\<close>.\<close>

definition slice :: "string \<Rightarrow> part list \<Rightarrow> part list" where
  "slice t df = filter (\<lambda>p. ptype p = t) df"

text \<open>\<open>bool(set(_canon_mount_list(a)) & set(_canon_mount_list(b)))\<close> on two mount cells.\<close>

definition mounts_overlap :: "string option \<Rightarrow> string option \<Rightarrow> bool" where
  "mounts_overlap a b =
     (case (a, b) of
        (Some x, Some y) \<Rightarrow> \<exists>t \<in> set (canon_mount_list (MStr x)). t \<in> set (canon_mount_list (MStr y))
      | _ \<Rightarrow> False)"

section \<open>Core algorithm: \<open>build_compat\<close>, rule by rule\<close>

text \<open>
  Each rule of \<open>build_compat\<close> is one definition, in the order of the source. Where the
  source builds the empty table with the same column list in an \<open>else\<close> branch, the rows
  below are simply empty: the two branches name the same columns.
\<close>

text \<open>frame and prop (size).\<close>

definition compat_frame_prop :: "part list \<Rightarrow> table" where
  "compat_frame_prop df =
     (let frp = filter (\<lambda>p. frame_max_prop_in p \<noteq> None) (slice ''frame'' df);
          prp = filter (\<lambda>p. prop_diameter_in p \<noteq> None) (slice ''prop'' df);
          j = cartesian frp prp
      in \<lparr>columns = [''frame_sku'', ''frame_name'', ''prop_sku'', ''prop_name'',
                      ''frame_max_prop_in'', ''prop_diameter_in'', ''status'', ''reason''],
          rows = map (\<lambda>(f, p).
            let status = (if fle (prop_diameter_in p) (frame_max_prop_in f) then PASS else FAIL);
                reason = (if status = PASS then ''Prop diameter '' @ le_sign @ '' frame max''
                          else ''Prop diameter > frame max'')
            in [Str (sku f), Str (name f), Str (sku p), Str (name p),
                float_cell (frame_max_prop_in f), float_cell (prop_diameter_in p),
                Str status, Str reason]) j\<rparr>)"

text \<open>frame and fc (mount).\<close>

definition compat_frame_fc :: "part list \<Rightarrow> table" where
  "compat_frame_fc df =
     (let fr_fc = filter (\<lambda>p. frame_fc_mount_pattern_eff p \<noteq> None) (slice ''frame'' df);
          fc_m = filter (\<lambda>p. fc_mount_pattern_eff p \<noteq> None) (slice ''fc'' df)
      in \<lparr>columns = [''frame_sku'', ''frame_name'', ''fc_sku'', ''fc_name'', ''status'', ''reason''],
          rows = map (\<lambda>(f, c).
            let overlap = mounts_overlap (frame_fc_mount_pattern_eff f) (fc_mount_pattern_eff c)
            in [Str (sku f), Str (name f), Str (sku c), Str (name c),
                Str (if overlap then PASS else FAIL),
                Str (if overlap then ''Mount pattern overlaps'' else ''No common mount pattern'')])
            (cartesian fr_fc fc_m)\<rparr>)"

text \<open>frame and motor (arm mount).\<close>

definition compat_frame_motor :: "part list \<Rightarrow> table" where
  "compat_frame_motor df =
     (let fr_mo = filter (\<lambda>p. frame_motor_mount_pattern_eff p \<noteq> None) (slice ''frame'' df);
          mo_m = filter (\<lambda>p. motor_mount_pattern_eff p \<noteq> None) (slice ''motor'' df)
      in \<lparr>columns = [''frame_sku'', ''frame_name'', ''motor_sku'', ''motor_name'', ''status'', ''reason''],
          rows = map (\<lambda>(f, m).
            let overlap = mounts_overlap (frame_motor_mount_pattern_eff f) (motor_mount_pattern_eff m)
            in [Str (sku f), Str (name f), Str (sku m), Str (name m),
                Str (if overlap then PASS else FAIL),
                Str (if overlap then ''Mount pattern overlaps'' else ''No common mount pattern'')])
            (cartesian fr_mo mo_m)\<rparr>)"

text \<open>esc and fc (stack mount).\<close>

definition compat_esc_fc :: "part list \<Rightarrow> table" where
  "compat_esc_fc df =
     (let es_m = filter (\<lambda>p. esc_mount_pattern_eff p \<noteq> None) (slice ''esc'' df);
          fc_m = filter (\<lambda>p. fc_mount_pattern_eff p \<noteq> None) (slice ''fc'' df)
      in \<lparr>columns = [''esc_sku'', ''esc_name'', ''fc_sku'', ''fc_name'', ''status'', ''reason''],
          rows = map (\<lambda>(e, c).
            let overlap = mounts_overlap (esc_mount_pattern_eff e) (fc_mount_pattern_eff c)
            in [Str (sku e), Str (name e), Str (sku c), Str (name c),
                Str (if overlap then PASS else FAIL),
                Str (if overlap then ''Form factor matches'' else ''No common mount pattern'')])
            (cartesian es_m fc_m)\<rparr>)"

text \<open>battery and esc (connector, and cells when known).\<close>

definition compat_battery_esc :: "part list \<Rightarrow> table" where
  "compat_battery_esc df =
     (let ba = filter (\<lambda>p. battery_connector_eff p \<noteq> None) (slice ''battery'' df);
          es = filter (\<lambda>p. esc_batt_connector_eff p \<noteq> None) (slice ''esc'' df);
          j = merge_on battery_connector_eff esc_batt_connector_eff ba es
      in \<lparr>columns = [''battery_sku'', ''battery_name'', ''esc_sku'', ''esc_name'',
                      ''battery_connector_eff'', ''esc_cells_min'', ''esc_cells_max'', ''cell_count'',
                      ''status'', ''reason''],
          rows = map (\<lambda>(b, e).
            let mask_known = (cell_count b \<noteq> None \<and> esc_cells_min e \<noteq> None \<and> esc_cells_max e \<noteq> None);
                cells_within = (fge (cell_count b) (esc_cells_min e) \<and> fle (cell_count b) (esc_cells_max e));
                status = (if mask_known \<and> \<not> cells_within then FAIL else PASS);
                reason = (if mask_known \<and> \<not> cells_within then ''Cells out of ESC range''
                          else if mask_known \<and> cells_within then ''Connector + cells OK''
                          else ''Connector matched'')
            in [Str (sku b), Str (name b), Str (sku e), Str (name e),
                text_cell (battery_connector_eff b), float_cell (esc_cells_min e),
                float_cell (esc_cells_max e), float_cell (cell_count b),
                Str status, Str reason]) j\<rparr>)"

text \<open>
  esc and motor: \<open>_eval_basic\<close> and \<open>_eval_head\<close>, on the esc row and the motor row of a
  pair, each returning \<open>(status, reason)\<close>.
\<close>

definition eval_basic :: "part \<Rightarrow> part \<Rightarrow> string \<times> string" where
  "eval_basic e m =
     (let cur_ok = fge (esc_continuous_current_a e) (max_current_a m);
          cells_ok = s_overlap (esc_cells_min e) (esc_cells_max e) (cells_min m) (cells_max m)
      in if cells_ok = Some False then (FAIL, ''Cell ranges do not overlap'')
         else if cur_ok then (PASS, ''current OK'' @ (if cells_ok = Some True then '' & cells overlap'' else []))
         else if cells_ok = Some True then (PASS, ''cells overlap (current unknown)'')
         else (WARN, ''insufficient data''))"

definition eval_head :: "real \<Rightarrow> part \<Rightarrow> part \<Rightarrow> string \<times> string" where
  "eval_head headroom e m =
     (case (esc_continuous_current_a e, max_current_a m) of
        (Some ec, Some mc) \<Rightarrow>
          (let cells_ok = s_overlap (esc_cells_min e) (esc_cells_max e) (cells_min m) (cells_max m)
           in if cells_ok = Some False then (FAIL, ''Cell ranges do not overlap'')
              else if cells_ok = None then (FAIL, ''missing cell ranges'')
              else
                let ok = (ec \<ge> headroom * mc)
                in (if ok then PASS else FAIL,
                    ''current '' @ (if ok then ge_sign else ''<'') @ '' '' @ fmt_1f headroom
                      @ times_sign @ '' & cells overlap''))
      | _ \<Rightarrow> (FAIL, ''missing current rating(s)''))"

definition esc_motor_columns :: "string list" where
  "esc_motor_columns = [''esc_sku'', ''esc_name'', ''motor_sku'', ''motor_name'',
     ''esc_continuous_current_a'', ''max_current_a'', ''esc_cells_min'', ''esc_cells_max'',
     ''cells_min'', ''cells_max'', ''status'', ''reason'']"

definition esc_motor_row :: "part \<Rightarrow> part \<Rightarrow> string \<times> string \<Rightarrow> cell list" where
  "esc_motor_row e m sr =
     [Str (sku e), Str (name e), Str (sku m), Str (name m),
      float_cell (esc_continuous_current_a e), float_cell (max_current_a m),
      float_cell (esc_cells_min e), float_cell (esc_cells_max e),
      float_cell (cells_min m), float_cell (cells_max m), Str (fst sr), Str (snd sr)]"

definition compat_esc_motor :: "part list \<Rightarrow> table" where
  "compat_esc_motor df =
     \<lparr>columns = esc_motor_columns,
      rows = map (\<lambda>(e, m). esc_motor_row e m (eval_basic e m))
               (cartesian (slice ''esc'' df) (slice ''motor'' df))\<rparr>"

definition compat_esc_motor_headroom :: "part list \<Rightarrow> real \<Rightarrow> table" where
  "compat_esc_motor_headroom df headroom =
     \<lparr>columns = esc_motor_columns,
      rows = map (\<lambda>(e, m). esc_motor_row e m (eval_head headroom e m))
               (cartesian (slice ''esc'' df) (slice ''motor'' df))\<rparr>"

text \<open>vtx and camera (system): \<open>dropna()\<close> on \<open>sku\<close>, \<open>name\<close> and the system column.\<close>

definition compat_vtx_camera :: "part list \<Rightarrow> table" where
  "compat_vtx_camera df =
     (let vt = filter (\<lambda>p. vtx_system p \<noteq> None) (slice ''vtx'' df);
          cm = filter (\<lambda>p. camera_system p \<noteq> None) (slice ''camera'' df);
          sys = (\<lambda>x. map_option (\<lambda>t. lower (strip t)) x);
          j = (if vt \<noteq> [] \<and> cm \<noteq> []
               then merge_on (\<lambda>p. sys (vtx_system p)) (\<lambda>p. sys (camera_system p)) vt cm else [])
      in \<lparr>columns = [''vtx_sku'', ''vtx_name'', ''camera_sku'', ''camera_name'', ''sys'',
                      ''status'', ''reason''],
          rows = map (\<lambda>(v, c).
            [Str (sku v), Str (name v), Str (sku c), Str (name c), text_cell (sys (vtx_system v)),
             Str PASS, Str ''Systems match'']) j\<rparr>)"

text \<open>
  vtx and antenna (RF connector). \<open>combine_first\<close> takes the canonical connector and, where
  that is missing, the raw text. The antenna gate is \<open>antenna_use\<close> equal to \<open>fpv\<close> in any
  case, or a band within 5.4 to 6.2.
\<close>

definition combine_first :: "'a option \<Rightarrow> 'a option \<Rightarrow> 'a option" where
  "combine_first a b = (case a of Some x \<Rightarrow> Some x | None \<Rightarrow> b)"

definition vtx_conn :: "part \<Rightarrow> string option" where
  "vtx_conn p = combine_first (vtx_ant_conn_eff p) (vtx_ant_conn p)"

definition ant_conn :: "part \<Rightarrow> string option" where
  "ant_conn p = combine_first (antenna_conn_eff p) (antenna_conn p)"

definition ant_gate :: "part \<Rightarrow> bool" where
  "ant_gate p =
     ((case antenna_use p of Some u \<Rightarrow> lower u = ''fpv'' | None \<Rightarrow> False)
      \<or> (fle (Some (54 / 10)) (antenna_band_ghz p) \<and> fle (antenna_band_ghz p) (Some (62 / 10))))"

definition vtx_antenna_join :: "part list \<Rightarrow> (part \<times> part) list" where
  "vtx_antenna_join df =
     (let vt2 = slice ''vtx'' df;
          an = slice ''antenna'' df
      in if vt2 \<noteq> [] \<and> an \<noteq> [] then merge_on vtx_conn ant_conn vt2 (filter ant_gate an) else [])"

definition compat_vtx_antenna :: "part list \<Rightarrow> table" where
  "compat_vtx_antenna df =
     \<lparr>columns = [''vtx_sku'', ''vtx_name'', ''antenna_sku'', ''antenna_name'', ''conn'',
                  ''status'', ''reason''],
      rows = map (\<lambda>(v, a).
        [Str (sku v), Str (name v), Str (sku a), Str (name a), text_cell (vtx_conn v),
         Str PASS, Str ''RF connector matches'']) (vtx_antenna_join df)\<rparr>"

text \<open>fc and vtx: VBAT cell ranges.\<close>

definition compat_fc_vtx_vbat :: "part list \<Rightarrow> table" where
  "compat_fc_vtx_vbat df =
     (let fcv = filter (\<lambda>p. fc_vbat_min_s p \<noteq> None \<and> fc_vbat_max_s p \<noteq> None) (slice ''fc'' df);
          vti = filter (\<lambda>p. vtx_input_s_min p \<noteq> None \<and> vtx_input_s_max p \<noteq> None) (slice ''vtx'' df)
      in \<lparr>columns = [''fc_sku'', ''fc_name'', ''vtx_sku'', ''vtx_name'', ''fc_vbat_min_s'',
                      ''fc_vbat_max_s'', ''vtx_input_s_min'', ''vtx_input_s_max'', ''status'', ''reason''],
          rows = map (\<lambda>(c, v).
            let ok = s_overlap (fc_vbat_min_s c) (fc_vbat_max_s c) (vtx_input_s_min v) (vtx_input_s_max v);
                status = (if ok = Some True then PASS else FAIL)
            in [Str (sku c), Str (name c), Str (sku v), Str (name v),
                float_cell (fc_vbat_min_s c), float_cell (fc_vbat_max_s c),
                float_cell (vtx_input_s_min v), float_cell (vtx_input_s_max v), Str status,
                Str (if status = PASS then ''VBAT ranges overlap'' else ''VBAT ranges do not overlap'')])
            (cartesian fcv vti)\<rparr>)"

text \<open>
  fc and vtx rails: \<open>_rail\<close>, the two columns given by name and by accessor, \<open>V\<close> the rail
  voltage.
\<close>

definition rail :: "part list \<Rightarrow> string \<Rightarrow> (part \<Rightarrow> real option) \<Rightarrow> string \<Rightarrow> (part \<Rightarrow> real option) \<Rightarrow> nat \<Rightarrow> table" where
  "rail df fc_col fc_val vtx_col vtx_val V =
     (let a = filter (\<lambda>p. fc_val p \<noteq> None) (slice ''fc'' df);
          b = filter (\<lambda>p. vtx_val p \<noteq> None) (slice ''vtx'' df)
      in \<lparr>columns = [''fc_sku'', ''fc_name'', ''vtx_sku'', ''vtx_name'', fc_col, vtx_col,
                      ''status'', ''reason''],
          rows = map (\<lambda>(c, v).
            let status = (if fge (fc_val c) (vtx_val v) then PASS else FAIL)
            in [Str (sku c), Str (name c), Str (sku v), Str (name v),
                float_cell (fc_val c), float_cell (vtx_val v), Str status,
                Str (if status = PASS then ''FC '' @ digits_of V @ ''V BEC '' @ ge_sign @ '' VTX current''
                     else ''FC '' @ digits_of V @ ''V BEC < VTX current'')])
            (cartesian a b)\<rparr>)"

text \<open>fc and camera: 5V current.\<close>

definition compat_fc_cam_5v :: "part list \<Rightarrow> table" where
  "compat_fc_cam_5v df =
     (let a = filter (\<lambda>p. fc_bec_5v_a p \<noteq> None) (slice ''fc'' df);
          b = filter (\<lambda>p. camera_5v_current_a p \<noteq> None) (slice ''camera'' df)
      in \<lparr>columns = [''fc_sku'', ''fc_name'', ''camera_sku'', ''camera_name'', ''fc_bec_5v_a'',
                      ''camera_5v_current_a'', ''status'', ''reason''],
          rows = map (\<lambda>(c, k).
            let status = (if fge (fc_bec_5v_a c) (camera_5v_current_a k) then PASS else FAIL)
            in [Str (sku c), Str (name c), Str (sku k), Str (name k),
                float_cell (fc_bec_5v_a c), float_cell (camera_5v_current_a k), Str status,
                Str (if status = PASS then ''FC 5V BEC '' @ ge_sign @ '' camera current''
                     else ''FC 5V BEC < camera current'')])
            (cartesian a b)\<rparr>)"

text \<open>fc and camera: \<open>_cam_accepts\<close>, the 10V and 12V rails against the camera's input range.\<close>

definition cam_accepts :: "part list \<Rightarrow> nat \<Rightarrow> (part \<Rightarrow> real option) \<Rightarrow> table" where
  "cam_accepts df V fc_val =
     (let a = filter (\<lambda>p. fc_val p \<noteq> None) (slice ''fc'' df);
          b = filter (\<lambda>p. camera_input_v_min p \<noteq> None \<and> camera_input_v_max p \<noteq> None) (slice ''camera'' df)
      in \<lparr>columns = [''fc_sku'', ''fc_name'', ''camera_sku'', ''camera_name'', ''camera_input_v_min'',
                      ''camera_input_v_max'', ''status'', ''reason''],
          rows = map (\<lambda>(c, k).
            let ok = (fle (camera_input_v_min k) (Some (real V)) \<and> fge (camera_input_v_max k) (Some (real V)))
            in [Str (sku c), Str (name c), Str (sku k), Str (name k),
                float_cell (camera_input_v_min k), float_cell (camera_input_v_max k),
                Str (if ok then PASS else FAIL),
                Str (if ok then ''Camera accepts '' @ digits_of V @ ''V''
                     else ''Camera '' @ digits_of V @ ''V out of range'')])
            (cartesian a b)\<rparr>)"

text \<open>
  rx and antenna. \<open>bucket\<close> calls \<open>float\<close> on the cell, which raises on a string that is
  not a number; \<open>Series.apply\<close> runs it over the rows and stops at the first exception.
\<close>

definition bucket_of :: "real \<Rightarrow> string option" where
  "bucket_of x =
     (if \<bar>x - 58 / 10\<bar> < 4 / 10 then Some ''5.8''
      else if \<bar>x - 24 / 10\<bar> < 3 / 10 then Some ''2.4''
      else if 7 / 10 \<le> x \<and> x \<le> 1 then Some ''0.9''
      else None)"

definition bucket :: "cell \<Rightarrow> error + string option" where
  "bucket x =
     (case x of
        Null \<Rightarrow> Inr None
      | Num v \<Rightarrow> Inr (bucket_of v)
      | Str s \<Rightarrow> (case py_float s of
                    Inl e \<Rightarrow> Inl e
                  | Inr None \<Rightarrow> Inr None
                  | Inr (Some v) \<Rightarrow> Inr (bucket_of v)))"

fun apply_series :: "('a \<Rightarrow> error + 'b) \<Rightarrow> 'a list \<Rightarrow> error + 'b list" where
  "apply_series f [] = Inr []"
| "apply_series f (x # xs) =
     (case f x of
        Inl e \<Rightarrow> Inl e
      | Inr y \<Rightarrow> (case apply_series f xs of Inl e \<Rightarrow> Inl e | Inr ys \<Rightarrow> Inr (y # ys)))"

definition rx_antenna_columns :: "string list" where
  "rx_antenna_columns = [''rx_sku'', ''rx_name'', ''antenna_sku'', ''antenna_name'', ''conn'', ''bb'',
     ''status'', ''reason'']"

text \<open>
  The join of the rule: each side with its \<open>conn\<close> and \<open>bb\<close> columns, merged on both.
\<close>

definition rx_antenna_join ::
  "part list \<Rightarrow> error + ((part \<times> string option \<times> string option) \<times> (part \<times> string option \<times> string option)) list" where
  "rx_antenna_join df =
     (let rx = filter (\<lambda>p. rx_ant_conn p \<noteq> None \<and> rx_band_ghz p \<noteq> Null) (slice ''rx'' df);
          an = filter (\<lambda>p. antenna_conn p \<noteq> None \<and> antenna_band_ghz p \<noteq> None) (slice ''antenna'' df)
      in if rx \<noteq> [] \<and> an \<noteq> [] then
           (let rx_conn = map (\<lambda>p. canon_connector (rx_ant_conn p)) rx;
                an_conn = map (\<lambda>p. canon_connector (antenna_conn p)) an
            in case apply_series (\<lambda>p. bucket (rx_band_ghz p)) rx of
                 Inl e \<Rightarrow> Inl e
               | Inr rx_bb \<Rightarrow>
                  (case apply_series (\<lambda>p. bucket (float_cell (antenna_band_ghz p))) an of
                     Inl e \<Rightarrow> Inl e
                   | Inr an_bb \<Rightarrow>
                      Inr (merge_on snd snd (zip rx (zip rx_conn rx_bb)) (zip an (zip an_conn an_bb)))))
         else Inr [])"

definition compat_rx_antenna :: "part list \<Rightarrow> error + table" where
  "compat_rx_antenna df =
     (case rx_antenna_join df of
        Inl e \<Rightarrow> Inl e
      | Inr j \<Rightarrow>
         Inr \<lparr>columns = rx_antenna_columns,
              rows = map (\<lambda>((r, conn, bb), (a, conn_a, bb_a)).
                [Str (sku r), Str (name r), Str (sku a), Str (name a),
                 text_cell conn, text_cell bb, Str PASS, Str ''Connector + band'']) j\<rparr>)"

text \<open>pigtail and esc, battery and pigtail (power connector).\<close>

definition compat_pigtail_esc :: "part list \<Rightarrow> table" where
  "compat_pigtail_esc df =
     (let pg = filter (\<lambda>p. pigtail_connector_eff p \<noteq> None) (slice ''pigtail'' df);
          es = filter (\<lambda>p. esc_batt_connector_eff p \<noteq> None) (slice ''esc'' df);
          j = (if pg \<noteq> [] \<and> es \<noteq> [] then merge_on pigtail_connector_eff esc_batt_connector_eff pg es else [])
      in \<lparr>columns = [''pigtail_sku'', ''pigtail_name'', ''esc_sku'', ''esc_name'',
                      ''pigtail_connector_eff'', ''status'', ''reason''],
          rows = map (\<lambda>(g, e).
            [Str (sku g), Str (name g), Str (sku e), Str (name e),
             text_cell (pigtail_connector_eff g), Str PASS, Str ''Connector matched'']) j\<rparr>)"

definition compat_battery_pigtail :: "part list \<Rightarrow> table" where
  "compat_battery_pigtail df =
     (let pg = filter (\<lambda>p. pigtail_connector_eff p \<noteq> None) (slice ''pigtail'' df);
          bt = filter (\<lambda>p. battery_connector_eff p \<noteq> None) (slice ''battery'' df);
          j = (if pg \<noteq> [] \<and> bt \<noteq> [] then merge_on pigtail_connector_eff battery_connector_eff pg bt else [])
      in \<lparr>columns = [''pigtail_sku'', ''pigtail_name'', ''battery_sku'', ''battery_name'',
                      ''pigtail_connector_eff'', ''status'', ''reason''],
          rows = map (\<lambda>(g, b).
            [Str (sku g), Str (name g), Str (sku b), Str (name b),
             text_cell (pigtail_connector_eff g), Str PASS, Str ''Connector matched'']) j\<rparr>)"

text \<open>capacitor and esc: capacitor voltage against \<open>esc_cells_max * 4.2 * 1.05\<close>.\<close>

definition compat_cap_esc :: "part list \<Rightarrow> table" where
  "compat_cap_esc df =
     (let cap = filter (\<lambda>p. capacitor_voltage_v p \<noteq> None) (slice ''capacitor'' df);
          esv = filter (\<lambda>p. esc_cells_max p \<noteq> None) (slice ''esc'' df);
          esc_vmax = (\<lambda>e. map_option (\<lambda>x. x * (42 / 10)) (esc_cells_max e));
          esc_v_need = (\<lambda>e. map_option (\<lambda>x. x * (105 / 100)) (esc_vmax e))
      in \<lparr>columns = [''capacitor_sku'', ''capacitor_name'', ''esc_sku'', ''esc_name'',
                      ''capacitor_voltage_v'', ''esc_vmax'', ''status'', ''reason''],
          rows = map (\<lambda>(c, e).
            let status = (if fge (capacitor_voltage_v c) (esc_v_need e) then PASS else FAIL)
            in [Str (sku c), Str (name c), Str (sku e), Str (name e),
                float_cell (capacitor_voltage_v c), float_cell (esc_vmax e), Str status,
                Str (if status = PASS then ''Cap voltage '' @ ge_sign @ '' VBAT max''
                     else ''Cap voltage < VBAT max'')])
            (cartesian cap esv)\<rparr>)"

text \<open>
  motor and prop (hub type). Every motor takes part, its hub inferred from the shaft; of the
  props only those with a \<open>prop_hub_eff\<close> (\<open>dropna\<close>).
\<close>

definition hub_verdict :: "string option \<Rightarrow> string option \<Rightarrow> string \<times> string" where
  "hub_verdict motor_hub_eff prop_hub =
     (let match = (motor_hub_eff \<noteq> None \<and> prop_hub \<noteq> None \<and> motor_hub_eff = prop_hub)
      in if match then (PASS, ''Hub type matches'')
         else if motor_hub_eff = None \<or> prop_hub = None then (WARN, ''Insufficient hub/shaft data'')
         else (FAIL, ''Hub type mismatch''))"

definition motor_prop_row :: "part \<Rightarrow> part \<Rightarrow> cell list" where
  "motor_prop_row m p =
     (let mh = motor_hub_from_shaft (shaft_mm m);
          sr = hub_verdict mh (prop_hub_eff p)
      in [Str (sku m), Str (name m), Str (sku p), Str (name p), float_cell (shaft_mm m),
          text_cell mh, text_cell (prop_hub_eff p), Str (fst sr), Str (snd sr)])"

definition compat_motor_prop_hub :: "part list \<Rightarrow> table" where
  "compat_motor_prop_hub df =
     (let mo_h = slice ''motor'' df;
          pr_h = filter (\<lambda>p. prop_hub_eff p \<noteq> None) (slice ''prop'' df)
      in \<lparr>columns = [''motor_sku'', ''motor_name'', ''prop_sku'', ''prop_name'', ''shaft_mm'',
                      ''motor_hub_eff'', ''prop_hub_eff'', ''status'', ''reason''],
          rows = map (\<lambda>(m, p). motor_prop_row m p) (cartesian mo_h pr_h)\<rparr>)"

text \<open>
  \<open>build_compat\<close>: the dictionary of result tables, as the list of its items in insertion
  order, or the exception that escapes. Only the rx and antenna rule can raise, and an
  exception there leaves no dictionary at all.
\<close>

definition build_compat :: "part list \<Rightarrow> real \<Rightarrow> error + (string \<times> table) list" where
  "build_compat parts headroom =
     (case compat_rx_antenna parts of
        Inl e \<Rightarrow> Inl e
      | Inr rx_an \<Rightarrow> Inr
         [(''Compat_frame_prop'', compat_frame_prop parts),
          (''Compat_frame_fc'', compat_frame_fc parts),
          (''Compat_frame_motor'', compat_frame_motor parts),
          (''Compat_esc_fc'', compat_esc_fc parts),
          (''Compat_battery_esc'', compat_battery_esc parts),
          (''Compat_esc_motor'', compat_esc_motor parts),
          (''Compat_esc_motor_headroom'', compat_esc_motor_headroom parts headroom),
          (''Compat_vtx_camera'', compat_vtx_camera parts),
          (''Compat_vtx_antenna'', compat_vtx_antenna parts),
          (''Compat_fc_vtx_vbat'', compat_fc_vtx_vbat parts),
          (''Compat_fc_vtx_5v'', rail parts ''fc_bec_5v_a'' fc_bec_5v_a ''vtx_5v_current_a'' vtx_5v_current_a 5),
          (''Compat_fc_vtx_9v'', rail parts ''fc_bec_9v_a'' fc_bec_9v_a ''vtx_9v_current_a'' vtx_9v_current_a 9),
          (''Compat_fc_vtx_10v'', rail parts ''fc_bec_10v_a'' fc_bec_10v_a ''vtx_10v_current_a'' vtx_10v_current_a 10),
          (''Compat_fc_vtx_12v'', rail parts ''fc_bec_12v_a'' fc_bec_12v_a ''vtx_12v_current_a'' vtx_12v_current_a 12),
          (''Compat_fc_cam_5v'', compat_fc_cam_5v parts),
          (''Compat_fc_cam_10v'', cam_accepts parts 10 fc_bec_10v_a),
          (''Compat_fc_cam_12v'', cam_accepts parts 12 fc_bec_12v_a),
          (''Compat_rx_antenna'', rx_an),
          (''Compat_pigtail_esc'', compat_pigtail_esc parts),
          (''Compat_battery_pigtail'', compat_battery_pigtail parts),
          (''Compat_cap_esc'', compat_cap_esc parts),
          (''Compat_motor_prop_hub'', compat_motor_prop_hub parts)])"

section \<open>summarize.py\<close>

text \<open>
  A frame as \<open>summarize\<close> sees it: its columns and its rows, a row giving the cell under
  each column. The cells are of any type, \<open>py_str\<close> being what \<open>astype(str)\<close> makes of
  them. The dictionary is the list of its items, a missing frame being \<open>None\<close>.
\<close>

record 'a frame =
  fcolumns :: "string list"
  frows :: "(string \<Rightarrow> 'a) list"






section \<open>Example inputs\<close>

text \<open>An ESC rated 30 A and a motor drawing 20 A, both for 3 to 6 and 4 to 6 cells.\<close>

definition ex_esc30 :: part where
  "ex_esc30 = (blank ''E1'' ''esc'' ''esc 30A'')
     \<lparr>esc_cells_min := Some 3, esc_cells_max := Some 6, esc_continuous_current_a := Some 30\<rparr>"

definition ex_motor20 :: part where
  "ex_motor20 = (blank ''M1'' ''motor'' ''motor 20A'')
     \<lparr>max_current_a := Some 20, cells_min := Some 4, cells_max := Some 6\<rparr>"



text \<open>Ratings entered with a negative sign.\<close>

definition ex_esc_neg :: part where
  "ex_esc_neg = ex_esc30\<lparr>esc_continuous_current_a := Some (- 15)\<rparr>"

definition ex_motor_neg :: part where
  "ex_motor_neg = ex_motor20\<lparr>max_current_a := Some (- 10)\<rparr>"









definition ex_ant_sma :: part where
  "ex_ant_sma = (blank ''A2'' ''antenna'' ''antenna sma'')
     \<lparr>antenna_conn := Some ''SMA'', antenna_conn_eff := canon_connector (Some ''SMA''),
      antenna_band_ghz := Some (24 / 10), antenna_use := Some ''fpv''\<rparr>"

text \<open>
  Receivers whose band was written as text: \<open>rx_band_ghz\<close> reaches \<open>build_compat\<close> as the
  source file had it.
\<close>

definition ex_rx_ghz :: part where
  "ex_rx_ghz = (blank ''R1'' ''rx'' ''rx 2.4GHz'')
     \<lparr>rx_ant_conn := Some ''SMA'', rx_band_ghz := Str ''2.4GHz''\<rparr>"

definition ex_rx_24 :: part where
  "ex_rx_24 = (blank ''R2'' ''rx'' ''rx 2.4'')
     \<lparr>rx_ant_conn := Some ''SMA'', rx_band_ghz := Str ''2.4''\<rparr>"

definition ex_rx_dual :: part where
  "ex_rx_dual = (blank ''R3'' ''rx'' ''rx dual'')
     \<lparr>rx_ant_conn := Some ''SMA'', rx_band_ghz := Str ''dual''\<rparr>"


section \<open>The documented result schema\<close>

text \<open>
  The keys of the result in insertion order, each with the column list that its rule names
  (the same list in the branch that builds rows and in the branch that builds the empty table).
\<close>

definition compat_schema :: "(string \<times> string list) list" where
  "compat_schema =
     [(''Compat_frame_prop'', [''frame_sku'', ''frame_name'', ''prop_sku'', ''prop_name'',
         ''frame_max_prop_in'', ''prop_diameter_in'', ''status'', ''reason'']),
      (''Compat_frame_fc'', [''frame_sku'', ''frame_name'', ''fc_sku'', ''fc_name'', ''status'', ''reason'']),
      (''Compat_frame_motor'', [''frame_sku'', ''frame_name'', ''motor_sku'', ''motor_name'', ''status'', ''reason'']),
      (''Compat_esc_fc'', [''esc_sku'', ''esc_name'', ''fc_sku'', ''fc_name'', ''status'', ''reason'']),
      (''Compat_battery_esc'', [''battery_sku'', ''battery_name'', ''esc_sku'', ''esc_name'',
         ''battery_connector_eff'', ''esc_cells_min'', ''esc_cells_max'', ''cell_count'', ''status'', ''reason'']),
      (''Compat_esc_motor'', [''esc_sku'', ''esc_name'', ''motor_sku'', ''motor_name'',
         ''esc_continuous_current_a'', ''max_current_a'', ''esc_cells_min'', ''esc_cells_max'',
         ''cells_min'', ''cells_max'', ''status'', ''reason'']),
      (''Compat_esc_motor_headroom'', [''esc_sku'', ''esc_name'', ''motor_sku'', ''motor_name'',
         ''esc_continuous_current_a'', ''max_current_a'', ''esc_cells_min'', ''esc_cells_max'',
         ''cells_min'', ''cells_max'', ''status'', ''reason'']),
      (''Compat_vtx_camera'', [''vtx_sku'', ''vtx_name'', ''camera_sku'', ''camera_name'', ''sys'',
         ''status'', ''reason'']),
      (''Compat_vtx_antenna'', [''vtx_sku'', ''vtx_name'', ''antenna_sku'', ''antenna_name'', ''conn'',
         ''status'', ''reason'']),
      (''Compat_fc_vtx_vbat'', [''fc_sku'', ''fc_name'', ''vtx_sku'', ''vtx_name'', ''fc_vbat_min_s'',
         ''fc_vbat_max_s'', ''vtx_input_s_min'', ''vtx_input_s_max'', ''status'', ''reason'']),
      (''Compat_fc_vtx_5v'', [''fc_sku'', ''fc_name'', ''vtx_sku'', ''vtx_name'', ''fc_bec_5v_a'',
         ''vtx_5v_current_a'', ''status'', ''reason'']),
      (''Compat_fc_vtx_9v'', [''fc_sku'', ''fc_name'', ''vtx_sku'', ''vtx_name'', ''fc_bec_9v_a'',
         ''vtx_9v_current_a'', ''status'', ''reason'']),
      (''Compat_fc_vtx_10v'', [''fc_sku'', ''fc_name'', ''vtx_sku'', ''vtx_name'', ''fc_bec_10v_a'',
         ''vtx_10v_current_a'', ''status'', ''reason'']),
      (''Compat_fc_vtx_12v'', [''fc_sku'', ''fc_name'', ''vtx_sku'', ''vtx_name'', ''fc_bec_12v_a'',
         ''vtx_12v_current_a'', ''status'', ''reason'']),
      (''Compat_fc_cam_5v'', [''fc_sku'', ''fc_name'', ''camera_sku'', ''camera_name'', ''fc_bec_5v_a'',
         ''camera_5v_current_a'', ''status'', ''reason'']),
      (''Compat_fc_cam_10v'', [''fc_sku'', ''fc_name'', ''camera_sku'', ''camera_name'',
         ''camera_input_v_min'', ''camera_input_v_max'', ''status'', ''reason'']),
      (''Compat_fc_cam_12v'', [''fc_sku'', ''fc_name'', ''camera_sku'', ''camera_name'',
         ''camera_input_v_min'', ''camera_input_v_max'', ''status'', ''reason'']),
      (''Compat_rx_antenna'', [''rx_sku'', ''rx_name'', ''antenna_sku'', ''antenna_name'', ''conn'', ''bb'',
         ''status'', ''reason'']),
      (''Compat_pigtail_esc'', [''pigtail_sku'', ''pigtail_name'', ''esc_sku'', ''esc_name'',
         ''pigtail_connector_eff'', ''status'', ''reason'']),
      (''Compat_battery_pigtail'', [''pigtail_sku'', ''pigtail_name'', ''battery_sku'', ''battery_name'',
         ''pigtail_connector_eff'', ''status'', ''reason'']),
      (''Compat_cap_esc'', [''capacitor_sku'', ''capacitor_name'', ''esc_sku'', ''esc_name'',
         ''capacitor_voltage_v'', ''esc_vmax'', ''status'', ''reason'']),
      (''Compat_motor_prop_hub'', [''motor_sku'', ''motor_name'', ''prop_sku'', ''prop_name'', ''shaft_mm'',
         ''motor_hub_eff'', ''prop_hub_eff'', ''status'', ''reason''])]"

text \<open>A row that ends with a status among PASS, FAIL and WARN and a reason text.\<close>

definition ends_with_verdict :: "cell list \<Rightarrow> bool" where
  "ends_with_verdict r =
     (case rev r of Str reason # Str status # rest \<Rightarrow> status \<in> {PASS, FAIL, WARN} | _ \<Rightarrow> False)"

text \<open>A band cell on which \<open>float\<close> does not raise.\<close>

definition band_readable :: "cell \<Rightarrow> bool" where
  "band_readable x =
     (case x of Str s \<Rightarrow> (case py_float s of Inl e \<Rightarrow> False | Inr v \<Rightarrow> True) | _ \<Rightarrow> True)"

section \<open>Properties\<close>

subsection \<open>Helper facts\<close>

lemma status_distinct:
  "PASS \<noteq> FAIL" "PASS \<noteq> WARN" "FAIL \<noteq> WARN" "FAIL \<noteq> PASS" "WARN \<noteq> PASS" "WARN \<noteq> FAIL"
  by (simp_all add: PASS_def FAIL_def WARN_def)







subsection \<open>The esc and motor headroom rule\<close>



text \<open>
  Claim C4, as stated: with an ESC continuous current of 30 and a motor max current of 20 the
  headroom rule yields PASS at headroom 1.2 and FAIL at headroom 1.3. It does not: at 1.3 the
  required current is 1.3 times 20, which is 26, and 30 is at least 26.
\<close>

theorem C4_counterexample:
  "\<not> (fst (eval_head (12 / 10) ex_esc30 ex_motor20) = PASS
      \<and> fst (eval_head (13 / 10) ex_esc30 ex_motor20) = FAIL)"
  by (simp add: eval_head_def ex_esc30_def ex_motor20_def blank_def s_overlap_def status_distinct)

text \<open>
  Claim C4, amended. For an ESC with continuous current 30 and a motor with max current 20
  whose cell ranges are known and overlap, the headroom rule yields PASS at headroom 1.2
  (required 24) and PASS at headroom 1.3 (required 26); it yields FAIL exactly when the
  headroom exceeds 1.5, for example at 1.55 (required 31).
\<close>

theorem C4_headroom_scenario:
  assumes "esc_continuous_current_a e = Some 30" and "max_current_a m = Some 20"
    and "s_overlap (esc_cells_min e) (esc_cells_max e) (cells_min m) (cells_max m) = Some True"
  shows "fst (eval_head (12 / 10) e m) = PASS \<and> fst (eval_head (13 / 10) e m) = PASS
         \<and> fst (eval_head (155 / 100) e m) = FAIL
         \<and> (fst (eval_head h e m) = FAIL \<longleftrightarrow> h > 15 / 10)"
proof -
  have "fst (eval_head k e m) = (if 30 \<ge> k * 20 then PASS else FAIL)" for k
    using assms by (simp add: eval_head_def Let_def)
  then show ?thesis
    by (auto simp: status_distinct)
qed

theorem C4_headroom_scenario_witness:
  "esc_continuous_current_a ex_esc30 = Some 30 \<and> max_current_a ex_motor20 = Some 20
   \<and> s_overlap (esc_cells_min ex_esc30) (esc_cells_max ex_esc30)
        (cells_min ex_motor20) (cells_max ex_motor20) = Some True
   \<and> fst (eval_head (12 / 10) ex_esc30 ex_motor20) = PASS
   \<and> fst (eval_head (13 / 10) ex_esc30 ex_motor20) = PASS
   \<and> fst (eval_head (155 / 100) ex_esc30 ex_motor20) = FAIL"
proof -
  have a: "esc_continuous_current_a ex_esc30 = Some 30"
    by (simp add: ex_esc30_def)
  have b: "max_current_a ex_motor20 = Some 20"
    by (simp add: ex_motor20_def)
  have c: "s_overlap (esc_cells_min ex_esc30) (esc_cells_max ex_esc30)
             (cells_min ex_motor20) (cells_max ex_motor20) = Some True"
    by (simp add: ex_esc30_def ex_motor20_def s_overlap_def)
  from a b c C4_headroom_scenario[OF a b c, of 0] show ?thesis
    by blast
qed

text \<open>
  Claim C5, as stated: for every ESC and motor and all headrooms \<open>h1 \<le> h2\<close>, PASS at \<open>h2\<close>
  implies PASS at \<open>h1\<close>. The ratings are not checked for their sign, and with a negative
  motor max current the product grows as the headroom falls: an ESC entered as -15 and a
  motor entered as -10 pass at headroom 2 and fail at headroom 1.
\<close>

theorem C5_counterexample:
  "\<not> ((1::real) \<le> 2 \<longrightarrow> fst (eval_head 2 ex_esc_neg ex_motor_neg) = PASS
        \<longrightarrow> fst (eval_head 1 ex_esc_neg ex_motor_neg) = PASS)"
  by (simp add: eval_head_def ex_esc_neg_def ex_motor_neg_def ex_esc30_def ex_motor20_def
        blank_def s_overlap_def status_distinct)

text \<open>
  Claim C5, amended. For every ESC and motor whose motor max current is not negative, and
  all headrooms \<open>h1 \<le> h2\<close>: if the headroom rule yields PASS at \<open>h2\<close>, it yields PASS at
  \<open>h1\<close>.
\<close>

theorem C5_headroom_monotone:
  assumes "\<And>mc. max_current_a m = Some mc \<Longrightarrow> 0 \<le> mc"
    and "h1 \<le> h2"
    and "fst (eval_head h2 e m) = PASS"
  shows "fst (eval_head h1 e m) = PASS"
proof (cases "esc_continuous_current_a e")
  case None
  with assms(3) show ?thesis
    by (simp add: eval_head_def status_distinct)
next
  case ec: (Some ec)
  show ?thesis
  proof (cases "max_current_a m")
    case None
    with assms(3) ec show ?thesis
      by (simp add: eval_head_def status_distinct)
  next
    case mc: (Some mc)
    then have "0 \<le> mc"
      by (rule assms(1))
    then have le: "h1 * mc \<le> h2 * mc"
      using assms(2) by (rule mult_right_mono[rotated])
    from assms(3) ec mc have "s_overlap (esc_cells_min e) (esc_cells_max e) (cells_min m) (cells_max m) = Some True
        \<and> h2 * mc \<le> ec"
      by (auto simp: eval_head_def Let_def status_distinct split: if_splits)
    with le ec mc show ?thesis
      by (simp add: eval_head_def Let_def)
  qed
qed

theorem C5_headroom_monotone_witness:
  "(12 / 10 :: real) \<le> 14 / 10 \<and> fst (eval_head (14 / 10) ex_esc30 ex_motor20) = PASS
   \<and> fst (eval_head (12 / 10) ex_esc30 ex_motor20) = PASS"
proof -
  have a: "\<And>mc. max_current_a ex_motor20 = Some mc \<Longrightarrow> 0 \<le> mc"
    by (simp add: ex_motor20_def)
  have b: "(12 / 10 :: real) \<le> 14 / 10"
    by simp
  have c: "fst (eval_head (14 / 10) ex_esc30 ex_motor20) = PASS"
    by (simp add: eval_head_def ex_esc30_def ex_motor20_def blank_def s_overlap_def)
  from b c C5_headroom_monotone[OF a b c] show ?thesis
    by blast
qed

subsection \<open>Connector canonicalization\<close>

text \<open>
  Claim C6. The power-connector canonicalizer maps \<open>XT-60\<close> to \<open>XT60\<close>. The RF-connector
  canonicalizer tests for \<open>RP SMA\<close> before \<open>SMA\<close>, but only with a separator between the
  two parts: \<open>rp-sma\<close> and \<open>rp_sma\<close> give \<open>RP-SMA\<close>, whereas \<open>rpsma\<close> falls through to
  the generic test and gives \<open>SMA\<close>. The U.FL branch accepts both \<open>U FL\<close> and \<open>UFL\<close>.
\<close>

theorem C6_canon_scenarios:
  "canon_power_conn (Some ''XT-60'') = Some ''XT60''
   \<and> canon_connector (Some ''rpsma'') = Some ''SMA''
   \<and> canon_connector (Some ''rp-sma'') = Some ''RP-SMA''
   \<and> canon_connector (Some ''rp_sma'') = Some ''RP-SMA''
   \<and> canon_connector (Some ''ufl'') = Some ''U.FL''
   \<and> canon_connector (Some ''u.fl'') = Some ''U.FL''"
  by code_simp

subsection \<open>Summary counts\<close>



subsection \<open>The motor and prop hub rule\<close>








subsection \<open>Records whose RF connector matches no known token\<close>











subsection \<open>Canonical forms as fixed points\<close>

lemma upper_char_idem: "upper_char (upper_char c) = upper_char c"
  unfolding upper_char_def Let_def by (auto simp: Suc_le_eq)

lemma upper_idem: "upper (upper s) = upper s"
  by (simp add: upper_def upper_char_idem)


























subsection \<open>Totality and schema of \<open>build_compat\<close>\<close>

text \<open>
  Claim C1. The claim is that no rule evaluation ever raises, also when attributes hold
  unparsed strings. \<open>rx_band_ghz\<close> is not among the columns that \<open>load_parts\<close> coerces
  to float, and the rx and antenna rule calls \<open>float\<close> on it: with a receiver whose
  band reads \<open>2.4GHz\<close> and one antenna to pair it with, \<open>build_compat\<close> raises
  \<open>ValueError\<close>, for every headroom.
\<close>

theorem C1_build_compat_raises:
  "build_compat [ex_rx_ghz, ex_ant_sma] headroom = Inl ValueError"
proof -
  have "compat_rx_antenna [ex_rx_ghz, ex_ant_sma] = Inl ValueError"
    by code_simp
  then show ?thesis
    by (simp add: build_compat_def)
qed

text \<open>
  Claim C2. The claim is that \<open>build_compat\<close> returns a mapping with every pair-type key
  for every input table. In a table where the band of one receiver reads \<open>2.4\<close> and that
  of another reads \<open>dual\<close> the exception of the rx and antenna rule escapes, and no
  mapping is returned at all.
\<close>

theorem C2_build_compat_no_mapping:
  "build_compat [ex_rx_24, ex_rx_dual, ex_ant_sma] headroom = Inl ValueError
   \<and> (\<forall>out. build_compat [ex_rx_24, ex_rx_dual, ex_ant_sma] headroom \<noteq> Inr out)"
proof -
  have "compat_rx_antenna [ex_rx_24, ex_rx_dual, ex_ant_sma] = Inl ValueError"
    by code_simp
  then show ?thesis
    by (simp add: build_compat_def)
qed

text \<open>
  What remains of the two claims beside the exception of \<open>float\<close>, in this model: when
  every band cell of the receivers can be read as a float, \<open>build_compat\<close> returns; and
  whenever it returns, the result has every key of the schema with its columns, also for the
  empty table, and every row of every table ends with a status among PASS, FAIL and WARN and
  a reason.
\<close>

lemma apply_series_ok:
  "\<forall>x \<in> set xs. \<exists>y. f x = Inr y \<Longrightarrow> \<exists>ys. apply_series f xs = Inr ys"
  by (induction xs) (auto split: sum.splits)

lemma bucket_readable: "band_readable x \<Longrightarrow> \<exists>y. bucket x = Inr y"
  by (cases x) (auto simp: bucket_def band_readable_def split: sum.splits option.splits error.splits)

lemma bucket_float_cell: "\<exists>y. bucket (float_cell x) = Inr y"
  by (cases x) (simp_all add: bucket_def float_cell_def)

lemma compat_rx_antenna_returns:
  assumes "\<forall>p \<in> set parts. band_readable (rx_band_ghz p)"
  shows "\<exists>t. compat_rx_antenna parts = Inr t"
proof -
  define rx where "rx = filter (\<lambda>p. rx_ant_conn p \<noteq> None \<and> rx_band_ghz p \<noteq> Null) (slice ''rx'' parts)"
  define an where "an = filter (\<lambda>p. antenna_conn p \<noteq> None \<and> antenna_band_ghz p \<noteq> None) (slice ''antenna'' parts)"
  have "\<forall>p \<in> set rx. \<exists>y. bucket (rx_band_ghz p) = Inr y"
    using assms bucket_readable by (auto simp: rx_def slice_def)
  then obtain rb where rb: "apply_series (\<lambda>p. bucket (rx_band_ghz p)) rx = Inr rb"
    using apply_series_ok[of rx "\<lambda>p. bucket (rx_band_ghz p)"] by blast
  have "\<forall>p \<in> set an. \<exists>y. bucket (float_cell (antenna_band_ghz p)) = Inr y"
    using bucket_float_cell by blast
  then obtain ab where ab: "apply_series (\<lambda>p. bucket (float_cell (antenna_band_ghz p))) an = Inr ab"
    using apply_series_ok[of an "\<lambda>p. bucket (float_cell (antenna_band_ghz p))"] by blast
  have "\<exists>j. rx_antenna_join parts = Inr j"
    unfolding rx_antenna_join_def Let_def rx_def[symmetric] an_def[symmetric]
    by (simp add: rb ab)
  then show ?thesis
    by (auto simp: compat_rx_antenna_def)
qed

lemma build_compat_returns:
  "\<forall>p \<in> set parts. band_readable (rx_band_ghz p) \<Longrightarrow> \<exists>out. build_compat parts headroom = Inr out"
  using compat_rx_antenna_returns[of parts] by (auto simp: build_compat_def)

lemma compat_rx_antenna_columns:
  "compat_rx_antenna parts = Inr t \<Longrightarrow> columns t = rx_antenna_columns"
  by (auto simp: compat_rx_antenna_def split: sum.splits)

lemma build_compat_schema:
  assumes "build_compat parts headroom = Inr out"
  shows "map (\<lambda>(k, t). (k, columns t)) out = compat_schema"
proof -
  from assms obtain t where t: "compat_rx_antenna parts = Inr t"
    by (auto simp: build_compat_def split: sum.splits)
  from assms t have "out =
         [(''Compat_frame_prop'', compat_frame_prop parts),
          (''Compat_frame_fc'', compat_frame_fc parts),
          (''Compat_frame_motor'', compat_frame_motor parts),
          (''Compat_esc_fc'', compat_esc_fc parts),
          (''Compat_battery_esc'', compat_battery_esc parts),
          (''Compat_esc_motor'', compat_esc_motor parts),
          (''Compat_esc_motor_headroom'', compat_esc_motor_headroom parts headroom),
          (''Compat_vtx_camera'', compat_vtx_camera parts),
          (''Compat_vtx_antenna'', compat_vtx_antenna parts),
          (''Compat_fc_vtx_vbat'', compat_fc_vtx_vbat parts),
          (''Compat_fc_vtx_5v'', rail parts ''fc_bec_5v_a'' fc_bec_5v_a ''vtx_5v_current_a'' vtx_5v_current_a 5),
          (''Compat_fc_vtx_9v'', rail parts ''fc_bec_9v_a'' fc_bec_9v_a ''vtx_9v_current_a'' vtx_9v_current_a 9),
          (''Compat_fc_vtx_10v'', rail parts ''fc_bec_10v_a'' fc_bec_10v_a ''vtx_10v_current_a'' vtx_10v_current_a 10),
          (''Compat_fc_vtx_12v'', rail parts ''fc_bec_12v_a'' fc_bec_12v_a ''vtx_12v_current_a'' vtx_12v_current_a 12),
          (''Compat_fc_cam_5v'', compat_fc_cam_5v parts),
          (''Compat_fc_cam_10v'', cam_accepts parts 10 fc_bec_10v_a),
          (''Compat_fc_cam_12v'', cam_accepts parts 12 fc_bec_12v_a),
          (''Compat_rx_antenna'', t),
          (''Compat_pigtail_esc'', compat_pigtail_esc parts),
          (''Compat_battery_pigtail'', compat_battery_pigtail parts),
          (''Compat_cap_esc'', compat_cap_esc parts),
          (''Compat_motor_prop_hub'', compat_motor_prop_hub parts)]"
    by (simp add: build_compat_def)
  then show ?thesis
    unfolding compat_schema_def
    by (simp add: compat_frame_prop_def compat_frame_fc_def compat_frame_motor_def compat_esc_fc_def
          compat_battery_esc_def compat_esc_motor_def compat_esc_motor_headroom_def
          esc_motor_columns_def compat_vtx_camera_def compat_vtx_antenna_def compat_fc_vtx_vbat_def
          rail_def compat_fc_cam_5v_def cam_accepts_def compat_rx_antenna_columns[OF t]
          rx_antenna_columns_def compat_pigtail_esc_def compat_battery_pigtail_def
          compat_cap_esc_def compat_motor_prop_hub_def Let_def)
qed

lemma build_compat_empty:
  "build_compat [] headroom = Inr (map (\<lambda>(k, cs). (k, \<lparr>columns = cs, rows = []\<rparr>)) compat_schema)"
  unfolding compat_schema_def
  by (simp add: build_compat_def compat_rx_antenna_def rx_antenna_join_def slice_def cartesian_def
        merge_on_def vtx_antenna_join_def
        compat_frame_prop_def compat_frame_fc_def compat_frame_motor_def compat_esc_fc_def
        compat_battery_esc_def compat_esc_motor_def compat_esc_motor_headroom_def
        esc_motor_columns_def compat_vtx_camera_def compat_vtx_antenna_def compat_fc_vtx_vbat_def
        rail_def compat_fc_cam_5v_def cam_accepts_def
        rx_antenna_columns_def compat_pigtail_esc_def compat_battery_pigtail_def
        compat_cap_esc_def compat_motor_prop_hub_def Let_def)

lemma eval_basic_status: "fst (eval_basic e m) \<in> {PASS, FAIL, WARN}"
  by (simp add: eval_basic_def Let_def)

lemma eval_head_status: "fst (eval_head h e m) \<in> {PASS, FAIL, WARN}"
  by (simp add: eval_head_def Let_def split: option.splits)

lemma hub_verdict_status: "fst (hub_verdict a b) \<in> {PASS, FAIL, WARN}"
  by (simp add: hub_verdict_def Let_def)

lemma esc_motor_row_verdict: "fst sr \<in> {PASS, FAIL, WARN} \<Longrightarrow> ends_with_verdict (esc_motor_row e m sr)"
  by (simp add: esc_motor_row_def ends_with_verdict_def)

lemma motor_prop_row_verdict: "ends_with_verdict (motor_prop_row m p)"
  using hub_verdict_status by (simp add: motor_prop_row_def ends_with_verdict_def Let_def)

lemma rows_frame_prop: "\<forall>r \<in> set (rows (compat_frame_prop df)). ends_with_verdict r"
  by (auto simp: compat_frame_prop_def Let_def ends_with_verdict_def)

lemma rows_frame_fc: "\<forall>r \<in> set (rows (compat_frame_fc df)). ends_with_verdict r"
  by (auto simp: compat_frame_fc_def Let_def ends_with_verdict_def)

lemma rows_frame_motor: "\<forall>r \<in> set (rows (compat_frame_motor df)). ends_with_verdict r"
  by (auto simp: compat_frame_motor_def Let_def ends_with_verdict_def)

lemma rows_esc_fc: "\<forall>r \<in> set (rows (compat_esc_fc df)). ends_with_verdict r"
  by (auto simp: compat_esc_fc_def Let_def ends_with_verdict_def)

lemma rows_battery_esc: "\<forall>r \<in> set (rows (compat_battery_esc df)). ends_with_verdict r"
  by (auto simp: compat_battery_esc_def Let_def ends_with_verdict_def)

lemma rows_esc_motor: "\<forall>r \<in> set (rows (compat_esc_motor df)). ends_with_verdict r"
  by (auto simp: compat_esc_motor_def intro!: esc_motor_row_verdict eval_basic_status)

lemma rows_esc_motor_headroom: "\<forall>r \<in> set (rows (compat_esc_motor_headroom df h)). ends_with_verdict r"
  by (auto simp: compat_esc_motor_headroom_def intro!: esc_motor_row_verdict eval_head_status)

lemma rows_vtx_camera: "\<forall>r \<in> set (rows (compat_vtx_camera df)). ends_with_verdict r"
  by (auto simp: compat_vtx_camera_def Let_def ends_with_verdict_def)

lemma rows_vtx_antenna: "\<forall>r \<in> set (rows (compat_vtx_antenna df)). ends_with_verdict r"
  by (auto simp: compat_vtx_antenna_def Let_def ends_with_verdict_def)

lemma rows_fc_vtx_vbat: "\<forall>r \<in> set (rows (compat_fc_vtx_vbat df)). ends_with_verdict r"
  by (auto simp: compat_fc_vtx_vbat_def Let_def ends_with_verdict_def)

lemma rows_rail: "\<forall>r \<in> set (rows (rail df a f b g V)). ends_with_verdict r"
  by (auto simp: rail_def Let_def ends_with_verdict_def)

lemma rows_fc_cam_5v: "\<forall>r \<in> set (rows (compat_fc_cam_5v df)). ends_with_verdict r"
  by (auto simp: compat_fc_cam_5v_def Let_def ends_with_verdict_def)

lemma rows_cam_accepts: "\<forall>r \<in> set (rows (cam_accepts df V f)). ends_with_verdict r"
  by (auto simp: cam_accepts_def Let_def ends_with_verdict_def)

lemma rows_rx_antenna: "compat_rx_antenna df = Inr t \<Longrightarrow> \<forall>r \<in> set (rows t). ends_with_verdict r"
  by (auto simp: compat_rx_antenna_def ends_with_verdict_def split: sum.splits)

lemma rows_pigtail_esc: "\<forall>r \<in> set (rows (compat_pigtail_esc df)). ends_with_verdict r"
  by (auto simp: compat_pigtail_esc_def Let_def ends_with_verdict_def)

lemma rows_battery_pigtail: "\<forall>r \<in> set (rows (compat_battery_pigtail df)). ends_with_verdict r"
  by (auto simp: compat_battery_pigtail_def Let_def ends_with_verdict_def)

lemma rows_cap_esc: "\<forall>r \<in> set (rows (compat_cap_esc df)). ends_with_verdict r"
  by (auto simp: compat_cap_esc_def Let_def ends_with_verdict_def)

lemma rows_motor_prop_hub: "\<forall>r \<in> set (rows (compat_motor_prop_hub df)). ends_with_verdict r"
  by (auto simp: compat_motor_prop_hub_def Let_def motor_prop_row_verdict)

lemma build_compat_verdicts:
  assumes "build_compat parts headroom = Inr out"
  shows "\<forall>(k, t) \<in> set out. \<forall>r \<in> set (rows t). ends_with_verdict r"
proof -
  from assms obtain t where t: "compat_rx_antenna parts = Inr t"
    by (auto simp: build_compat_def split: sum.splits)
  from assms t have out: "out =
         [(''Compat_frame_prop'', compat_frame_prop parts),
          (''Compat_frame_fc'', compat_frame_fc parts),
          (''Compat_frame_motor'', compat_frame_motor parts),
          (''Compat_esc_fc'', compat_esc_fc parts),
          (''Compat_battery_esc'', compat_battery_esc parts),
          (''Compat_esc_motor'', compat_esc_motor parts),
          (''Compat_esc_motor_headroom'', compat_esc_motor_headroom parts headroom),
          (''Compat_vtx_camera'', compat_vtx_camera parts),
          (''Compat_vtx_antenna'', compat_vtx_antenna parts),
          (''Compat_fc_vtx_vbat'', compat_fc_vtx_vbat parts),
          (''Compat_fc_vtx_5v'', rail parts ''fc_bec_5v_a'' fc_bec_5v_a ''vtx_5v_current_a'' vtx_5v_current_a 5),
          (''Compat_fc_vtx_9v'', rail parts ''fc_bec_9v_a'' fc_bec_9v_a ''vtx_9v_current_a'' vtx_9v_current_a 9),
          (''Compat_fc_vtx_10v'', rail parts ''fc_bec_10v_a'' fc_bec_10v_a ''vtx_10v_current_a'' vtx_10v_current_a 10),
          (''Compat_fc_vtx_12v'', rail parts ''fc_bec_12v_a'' fc_bec_12v_a ''vtx_12v_current_a'' vtx_12v_current_a 12),
          (''Compat_fc_cam_5v'', compat_fc_cam_5v parts),
          (''Compat_fc_cam_10v'', cam_accepts parts 10 fc_bec_10v_a),
          (''Compat_fc_cam_12v'', cam_accepts parts 12 fc_bec_12v_a),
          (''Compat_rx_antenna'', t),
          (''Compat_pigtail_esc'', compat_pigtail_esc parts),
          (''Compat_battery_pigtail'', compat_battery_pigtail parts),
          (''Compat_cap_esc'', compat_cap_esc parts),
          (''Compat_motor_prop_hub'', compat_motor_prop_hub parts)]"
    by (simp add: build_compat_def)
  show ?thesis
    unfolding out
    by (simp add: rows_frame_prop rows_frame_fc rows_frame_motor rows_esc_fc rows_battery_esc
          rows_esc_motor rows_esc_motor_headroom rows_vtx_camera rows_vtx_antenna rows_fc_vtx_vbat
          rows_rail rows_fc_cam_5v rows_cam_accepts rows_rx_antenna[OF t] rows_pigtail_esc
          rows_battery_pigtail rows_cap_esc rows_motor_prop_hub)
qed

end
